theory Spec2Isabelle
  imports Complex_Main
begin

section \<open>Data model\<close>

text \<open>
  The repository holds two React providers in \<^verbatim>\<open>src/context/AuthContext.tsx\<close>: the
  \<^verbatim>\<open>AuthProvider\<close> (current user, loading flag, token in \<^verbatim>\<open>localStorage\<close>) and the
  \<^verbatim>\<open>GDProvider\<close> (sessions, evaluations, loading flag). Identifiers and roles are
  JavaScript strings and stay strings here; a field that may be \<^verbatim>\<open>null\<close> or
  \<^verbatim>\<open>undefined\<close> is an \<open>option\<close>. Several records of the source share field names
  (\<^verbatim>\<open>id\<close>, \<^verbatim>\<open>createdAt\<close>, ...); they keep their names and are written qualified
  (\<open>GDSession.id\<close>) wherever two records own the same name. The field \<^verbatim>\<open>section\<close> is
  written \<open>section'\<close>.

  JavaScript numbers are modelled by the reals: the scores are added and divided exactly,
  rounding of IEEE doubles is not part of the model. The methods of a provider run one
  after the other: a call is modelled from its start to its completion, with the
  outcomes of its network requests as arguments.
\<close>

text \<open>
  A \<^verbatim>\<open>Date\<close> object is either the invalid date or a point in time, which is identified
  by its ISO-8601 rendering. A timestamp field of a backend record stands for the
  \<^verbatim>\<open>Date\<close> that \<^verbatim>\<open>new Date(field)\<close> builds from it.
\<close>

datatype Date = InvalidDate | ValidDate string

text \<open>A thrown \<^verbatim>\<open>Error\<close>, with its message.\<close>

datatype error = Error string

subsection \<open>Records of the backend\<close>

text \<open>
  The rows the backend returns (snake case). \<^verbatim>\<open>ProfileRow\<close> is imported from
  \<^verbatim>\<open>@/types/supabase\<close>; the session and evaluation rows are untyped in the source and
  are given the fields the code reads. The login and register responses carry a
  \<^verbatim>\<open>token\<close> beside the profile.

  The role of an evaluator is decided by \<^verbatim>\<open>session?.createdBy === e.evaluator_id\<close>,
  and strict equality holds between two \<^verbatim>\<open>undefined\<close>: a row that carries no
  \<^verbatim>\<open>evaluator_id\<close> is not the same to the code as a row that carries one. That field
  is therefore modelled with the values it can take: absent, \<^verbatim>\<open>null\<close>, or a string
  (any other value is, like \<^verbatim>\<open>null\<close>, strictly equal to no string and not to
  \<^verbatim>\<open>undefined\<close>). The other fields are only copied, or compared with strings, and
  are taken with the type of the client field they are copied into.
\<close>

datatype 'a jsfield = Undefined | Null | Value 'a

record ProfileRow =
  id :: string
  name :: string
  email :: string
  role :: string
  department :: "string option"
  section' :: "string option"
  year :: "string option"
  roll_number :: "string option"
  designation :: "string option"
  created_at :: Date

record AuthResponse = ProfileRow +
  token :: string

record SessionRow =
  id :: string
  topic :: string
  details :: string
  group_name :: string
  group_number :: int
  date :: Date
  participants :: "string list option"
  evaluators :: "string list option"
  created_by :: string
  created_at :: Date

record EvaluationRow =
  id :: string
  gd_session_id :: string
  student_id :: string
  evaluator_id :: "string jsfield"
  articulation :: real
  relevance :: real
  leadership :: real
  non_verbal_communication :: real
  impression :: real
  created_at :: Date

subsection \<open>Records of the client\<close>

record RegisterData =
  name :: string
  email :: string
  password :: string
  role :: string
  rollNumber :: "string option"
  department :: "string option"
  section' :: "string option"
  year :: "string option"
  designation :: "string option"

record UpdateProfileData =
  name :: "string option"
  email :: "string option"
  rollNumber :: "string option"
  department :: "string option"
  section' :: "string option"
  year :: "string option"
  designation :: "string option"

record User =
  id :: string
  name :: string
  email :: string
  role :: string
  department :: "string option"
  section' :: "string option"
  year :: "string option"
  rollNumber :: "string option"
  designation :: "string option"
  createdAt :: Date

text \<open>
  \<^verbatim>\<open>Omit<GDSession, "id" | "createdAt" | "createdBy">\<close> is the argument of
  \<^verbatim>\<open>createSession\<close>; \<^verbatim>\<open>GDSession\<close> adds the three omitted fields to it.
\<close>

record SessionData =
  topic :: string
  details :: string
  groupName :: string
  groupNumber :: int
  date :: Date
  participants :: "string list"
  evaluators :: "string list"

record GDSession = SessionData +
  id :: string
  createdBy :: string
  createdAt :: Date

record EvaluationCriteria =
  articulation :: real
  relevance :: real
  leadership :: real
  nonVerbalCommunication :: real
  impression :: real

record Evaluation =
  id :: string
  gdSessionId :: string
  studentId :: string
  evaluatorId :: "string jsfield"
  evaluatorRole :: string
  criteria :: EvaluationCriteria
  createdAt :: Date

record Scores =
  peerAverage :: EvaluationCriteria
  instructorScores :: EvaluationCriteria
  finalScores :: EvaluationCriteria

record SessionsForUser =
  participatingSessions :: "GDSession list"
  evaluatingSessions :: "GDSession list"

subsection \<open>The network\<close>

text \<open>
  Every \<^verbatim>\<open>fetch\<close> that is issued is logged as a request (HTTP method, path below
  \<^verbatim>\<open>API_BASE_URL\<close>, \<^verbatim>\<open>Authorization\<close> header, body), and its outcome is an argument of
  the call: the promise rejects, or it resolves to a response whose \<^verbatim>\<open>ok\<close> flag is
  false or true. \<^verbatim>\<open>response.json()\<close> rejects or yields the payload; the payload of a
  failed response is read for its optional \<^verbatim>\<open>error\<close> field only.
\<close>

datatype body =
    NoBody
  | LoginBody string string
  | RegisterBody RegisterData
  | UpdateProfileBody UpdateProfileData
  | CreateSessionBody string string string int string "string list" "string list"
  | SubmitEvaluationBody string string EvaluationCriteria

record request =
  httpMethod :: string
  url :: string
  authorization :: "string option"
  body :: body

datatype 'a json = JsonRejected string | Json 'a

datatype 'a response = FetchRejected string | NotOk "string option json" | Ok "'a json"

subsection \<open>Provider state\<close>

text \<open>
  The state of the \<^verbatim>\<open>AuthProvider\<close>, with the \<^verbatim>\<open>authToken\<close> entry of
  \<^verbatim>\<open>localStorage\<close>, and the state of the \<^verbatim>\<open>GDProvider\<close>. Each provider has a loading
  flag of its own.
\<close>

record AuthState =
  user :: "User option"
  isLoading :: bool
  authToken :: "string option"

record GDState =
  sessions :: "GDSession list"
  evaluations :: "Evaluation list"
  isLoading :: bool

section \<open>Helpers of the embedding\<close>

text \<open>
  \<^verbatim>\<open>a || b\<close> on strings takes \<open>b\<close> when \<open>a\<close> is empty; \<^verbatim>\<open>x || undefined\<close> on a nullable
  string drops the empty string too; an absent string read through \<^verbatim>\<open>||\<close> counts as
  empty. \<^verbatim>\<open>`Bearer ${token}`\<close> prints a missing token as \<^verbatim>\<open>null\<close>.
  \<^verbatim>\<open>toISOString\<close> throws a \<^verbatim>\<open>RangeError\<close> on the invalid date.
\<close>

definition orDefault :: "string \<Rightarrow> string \<Rightarrow> string" where
  "orDefault a b = (if a = [] then b else a)"

definition orUndefined :: "string option \<Rightarrow> string option" where
  "orUndefined x = (case x of None \<Rightarrow> None | Some v \<Rightarrow> if v = [] then None else Some v)"

definition orEmpty :: "string option \<Rightarrow> string" where
  "orEmpty x = (case x of None \<Rightarrow> [] | Some v \<Rightarrow> v)"

definition bearer :: "string option \<Rightarrow> string option" where
  "bearer tok = Some (''Bearer '' @ (case tok of None \<Rightarrow> ''null'' | Some t \<Rightarrow> t))"

definition toISOString :: "Date \<Rightarrow> error + string" where
  "toISOString d =
     (case d of InvalidDate \<Rightarrow> Inl (Error ''Invalid time value'') | ValidDate str \<Rightarrow> Inr str)"

section \<open>The authentication provider\<close>

definition profileToUser :: "'a ProfileRow_scheme \<Rightarrow> User" where
  "profileToUser profile =
     \<lparr>User.id = ProfileRow.id profile,
      User.name = ProfileRow.name profile,
      User.email = ProfileRow.email profile,
      User.role = ProfileRow.role profile,
      User.department = orUndefined (ProfileRow.department profile),
      User.section' = orUndefined (ProfileRow.section' profile),
      User.year = orUndefined (ProfileRow.year profile),
      User.rollNumber = orUndefined (ProfileRow.roll_number profile),
      User.designation = orUndefined (ProfileRow.designation profile),
      User.createdAt = ProfileRow.created_at profile\<rparr>"

text \<open>
  \<^verbatim>\<open>checkSession\<close> runs once when the provider mounts. Any failure removes the token
  and is logged, not thrown.
\<close>

definition checkSession :: "ProfileRow response \<Rightarrow> AuthState \<Rightarrow> request list \<times> AuthState" where
  "checkSession r a =
     (case authToken a of
        None \<Rightarrow> ([], a\<lparr>AuthState.isLoading := False\<rparr>)
      | Some t \<Rightarrow>
          if t = [] then ([], a\<lparr>AuthState.isLoading := False\<rparr>)
          else
            (let req = \<lparr>httpMethod = ''GET'', url = ''/check-session'',
                        authorization = bearer (Some t), body = NoBody\<rparr>;
                 a1 = (case r of
                         Ok (Json userData) \<Rightarrow> a\<lparr>user := Some (profileToUser userData)\<rparr>
                       | Ok (JsonRejected m) \<Rightarrow> a\<lparr>authToken := None\<rparr>
                       | NotOk e \<Rightarrow> a\<lparr>authToken := None\<rparr>
                       | FetchRejected m \<Rightarrow> a\<lparr>authToken := None\<rparr>)
             in ([req], a1\<lparr>AuthState.isLoading := False\<rparr>)))"

text \<open>
  \<^verbatim>\<open>login\<close>, \<^verbatim>\<open>register\<close> and \<^verbatim>\<open>updateProfile\<close> have the shape
  \<^verbatim>\<open>try { ... } catch (error) { throw new Error(error.message || fallback) }
  finally { setIsLoading(false) }\<close>.
  The result is the thrown error or the normal return, the requests issued, and the state
  the call leaves.
\<close>

definition login ::
  "string \<Rightarrow> string \<Rightarrow> AuthResponse response \<Rightarrow> AuthState
     \<Rightarrow> (error + unit) \<times> request list \<times> AuthState" where
  "login email' password' r a =
     (let a1 = a\<lparr>AuthState.isLoading := True\<rparr>;
          reqs = [\<lparr>httpMethod = ''POST'', url = ''/login'', authorization = None,
                   body = LoginBody email' password'\<rparr>]
      in case r of
           FetchRejected m \<Rightarrow>
             (Inl (Error (orDefault m ''Failed to log in'')), reqs,
              a1\<lparr>AuthState.isLoading := False\<rparr>)
         | NotOk e \<Rightarrow>
             (Inl (Error (orDefault ''Login failed'' ''Failed to log in'')), reqs,
              a1\<lparr>AuthState.isLoading := False\<rparr>)
         | Ok (JsonRejected m) \<Rightarrow>
             (Inl (Error (orDefault m ''Failed to log in'')), reqs,
              a1\<lparr>AuthState.isLoading := False\<rparr>)
         | Ok (Json userData) \<Rightarrow>
             (Inr (), reqs,
              a1\<lparr>user := Some (profileToUser userData),
                 authToken := Some (token userData),
                 AuthState.isLoading := False\<rparr>))"

definition register ::
  "RegisterData \<Rightarrow> AuthResponse response \<Rightarrow> AuthState
     \<Rightarrow> (error + unit) \<times> request list \<times> AuthState" where
  "register d r a =
     (let a1 = a\<lparr>AuthState.isLoading := True\<rparr>;
          reqs = [\<lparr>httpMethod = ''POST'', url = ''/register'', authorization = None,
                   body = RegisterBody d\<rparr>]
      in case r of
           FetchRejected m \<Rightarrow>
             (Inl (Error (orDefault m ''Failed to register'')), reqs,
              a1\<lparr>AuthState.isLoading := False\<rparr>)
         | NotOk e \<Rightarrow>
             (Inl (Error (orDefault ''Registration failed'' ''Failed to register'')), reqs,
              a1\<lparr>AuthState.isLoading := False\<rparr>)
         | Ok (JsonRejected m) \<Rightarrow>
             (Inl (Error (orDefault m ''Failed to register'')), reqs,
              a1\<lparr>AuthState.isLoading := False\<rparr>)
         | Ok (Json userData) \<Rightarrow>
             (Inr (), reqs,
              a1\<lparr>user := Some (profileToUser userData),
                 authToken := Some (token userData),
                 AuthState.isLoading := False\<rparr>))"

definition updateProfile ::
  "UpdateProfileData \<Rightarrow> ProfileRow response \<Rightarrow> AuthState
     \<Rightarrow> (error + unit) \<times> request list \<times> AuthState" where
  "updateProfile d r a =
     (case user a of
        None \<Rightarrow>
          (Inl (Error (orDefault ''No user is logged in'' ''Failed to update profile'')), [],
           a\<lparr>AuthState.isLoading := False\<rparr>)
      | Some u \<Rightarrow>
          (let a1 = a\<lparr>AuthState.isLoading := True\<rparr>;
               reqs = [\<lparr>httpMethod = ''PUT'', url = ''/update-profile'',
                        authorization = bearer (authToken a1), body = UpdateProfileBody d\<rparr>]
           in case r of
                FetchRejected m \<Rightarrow>
                  (Inl (Error (orDefault m ''Failed to update profile'')), reqs,
                   a1\<lparr>AuthState.isLoading := False\<rparr>)
              | NotOk e \<Rightarrow>
                  (Inl (Error (orDefault ''Profile update failed'' ''Failed to update profile'')),
                   reqs, a1\<lparr>AuthState.isLoading := False\<rparr>)
              | Ok (JsonRejected m) \<Rightarrow>
                  (Inl (Error (orDefault m ''Failed to update profile'')), reqs,
                   a1\<lparr>AuthState.isLoading := False\<rparr>)
              | Ok (Json updatedUser) \<Rightarrow>
                  (Inr (), reqs,
                   a1\<lparr>user := Some (profileToUser updatedUser),
                      AuthState.isLoading := False\<rparr>)))"

definition logout :: "AuthState \<Rightarrow> (error + unit) \<times> request list \<times> AuthState" where
  "logout a =
     (let a1 = a\<lparr>AuthState.isLoading := True\<rparr>;
          a2 = a1\<lparr>authToken := None\<rparr>;
          a3 = a2\<lparr>user := None\<rparr>
      in (Inr (), [], a3\<lparr>AuthState.isLoading := False\<rparr>))"

section \<open>The evaluation data provider\<close>

text \<open>
  The provider reads the current user from the authentication provider and the token from
  \<^verbatim>\<open>localStorage\<close>; both are arguments here, and no method of this provider writes them.
\<close>

subsection \<open>Normalising backend rows\<close>

text \<open>
  The object literal that \<^verbatim>\<open>fetchData\<close> builds for every session row, and
  \<^verbatim>\<open>createSession\<close> for the created one.
\<close>

definition formatSession :: "'a SessionRow_scheme \<Rightarrow> GDSession" where
  "formatSession s =
     \<lparr>SessionData.topic = SessionRow.topic s,
      SessionData.details = SessionRow.details s,
      SessionData.groupName = group_name s,
      SessionData.groupNumber = group_number s,
      SessionData.date = SessionRow.date s,
      SessionData.participants =
        (case SessionRow.participants s of None \<Rightarrow> [] | Some ps \<Rightarrow> ps),
      SessionData.evaluators =
        (case SessionRow.evaluators s of None \<Rightarrow> [] | Some es \<Rightarrow> es),
      GDSession.id = SessionRow.id s,
      GDSession.createdBy = created_by s,
      GDSession.createdAt = SessionRow.created_at s\<rparr>"

text \<open>
  The object literal that \<^verbatim>\<open>fetchData\<close> builds for every evaluation row against the
  sessions just fetched, and \<^verbatim>\<open>submitEvaluation\<close> for the returned row against the
  sessions in memory. \<^verbatim>\<open>session?.createdBy\<close> is \<^verbatim>\<open>undefined\<close> when \<^verbatim>\<open>find\<close> found
  no session, and \<^verbatim>\<open>===\<close> then holds exactly when the row has no \<^verbatim>\<open>evaluator_id\<close>.
  The row may carry any further fields: they are its extension.
\<close>

definition formatEvaluation :: "GDSession list \<Rightarrow> 'a EvaluationRow_scheme \<Rightarrow> Evaluation" where
  "formatEvaluation ss e =
     (let session = find (\<lambda>s. GDSession.id s = gd_session_id e) ss;
          isInstructor =
            ((case session of None \<Rightarrow> Undefined | Some s \<Rightarrow> Value (createdBy s))
              = evaluator_id e)
      in \<lparr>Evaluation.id = EvaluationRow.id e,
          Evaluation.gdSessionId = gd_session_id e,
          Evaluation.studentId = student_id e,
          Evaluation.evaluatorId = evaluator_id e,
          Evaluation.evaluatorRole = (if isInstructor then ''instructor'' else ''student''),
          Evaluation.criteria =
            \<lparr>EvaluationCriteria.articulation = EvaluationRow.articulation e,
             EvaluationCriteria.relevance = EvaluationRow.relevance e,
             EvaluationCriteria.leadership = EvaluationRow.leadership e,
             EvaluationCriteria.nonVerbalCommunication = non_verbal_communication e,
             EvaluationCriteria.impression = EvaluationRow.impression e\<rparr>,
          Evaluation.createdAt = EvaluationRow.created_at e\<rparr>)"

subsection \<open>Fetching\<close>

text \<open>
  \<^verbatim>\<open>fetchData\<close> returns at once without a user (or with an empty user id), and after
  raising and lowering the loading flag without a token. Inside the \<^verbatim>\<open>try\<close> every
  failure is logged and swallowed; the sessions are stored before the evaluations are
  requested. It never throws.
\<close>

definition fetchData ::
  "User option \<Rightarrow> string option \<Rightarrow> 'a SessionRow_scheme list response
     \<Rightarrow> 'b EvaluationRow_scheme list response \<Rightarrow> GDState \<Rightarrow> request list \<times> GDState" where
  "fetchData u tok rs re g =
     (case u of
        None \<Rightarrow> ([], g)
      | Some usr \<Rightarrow>
          if User.id usr = [] then ([], g)
          else
            (let g1 = g\<lparr>GDState.isLoading := True\<rparr>
             in if orEmpty tok = [] then ([], g1\<lparr>GDState.isLoading := False\<rparr>)
                else
                  (let req1 = \<lparr>httpMethod = ''GET'', url = ''/sessions'',
                               authorization = bearer tok, body = NoBody\<rparr>
                   in case rs of
                        Ok (Json sessionsData) \<Rightarrow>
                          (let formattedSessions = map formatSession sessionsData;
                               g2 = g1\<lparr>sessions := formattedSessions\<rparr>;
                               req2 = \<lparr>httpMethod = ''GET'', url = ''/evaluations'',
                                        authorization = bearer tok, body = NoBody\<rparr>
                           in case re of
                                Ok (Json evaluationsData) \<Rightarrow>
                                  (let formattedEvaluations =
                                         map (formatEvaluation formattedSessions) evaluationsData;
                                       g3 = g2\<lparr>evaluations := formattedEvaluations\<rparr>
                                   in ([req1, req2], g3\<lparr>GDState.isLoading := False\<rparr>))
                              | Ok (JsonRejected m) \<Rightarrow>
                                  ([req1, req2], g2\<lparr>GDState.isLoading := False\<rparr>)
                              | NotOk e \<Rightarrow> ([req1, req2], g2\<lparr>GDState.isLoading := False\<rparr>)
                              | FetchRejected m \<Rightarrow>
                                  ([req1, req2], g2\<lparr>GDState.isLoading := False\<rparr>))
                      | Ok (JsonRejected m) \<Rightarrow> ([req1], g1\<lparr>GDState.isLoading := False\<rparr>)
                      | NotOk e \<Rightarrow> ([req1], g1\<lparr>GDState.isLoading := False\<rparr>)
                      | FetchRejected m \<Rightarrow> ([req1], g1\<lparr>GDState.isLoading := False\<rparr>))))"

subsection \<open>Mutations\<close>

text \<open>
  The error a failed response throws in this provider:
  \<^verbatim>\<open>errorData = await response.json(); throw new Error(errorData.error || fallback)\<close>.
\<close>

definition responseError :: "string option json \<Rightarrow> string \<Rightarrow> error" where
  "responseError e fallback =
     (case e of
        JsonRejected m \<Rightarrow> Error m
      | Json errorData \<Rightarrow> Error (orDefault (orEmpty errorData) fallback))"

text \<open>
  \<^verbatim>\<open>createSession\<close> checks the caller before it touches the flag or the network; the
  two checks stand before the \<^verbatim>\<open>try\<close>. Inside it, the request body is built (which
  throws on an invalid date), the response is read, the new session is appended and all
  data is fetched again; \<^verbatim>\<open>catch\<close> rethrows and \<^verbatim>\<open>finally\<close> lowers the flag.
\<close>

definition createSession ::
  "User option \<Rightarrow> string option \<Rightarrow> SessionData \<Rightarrow> 'a SessionRow_scheme response
     \<Rightarrow> 'b SessionRow_scheme list response \<Rightarrow> 'c EvaluationRow_scheme list response
     \<Rightarrow> GDState \<Rightarrow> (error + GDSession) \<times> request list \<times> GDState" where
  "createSession u tok sessionData r rs re g =
     (case u of
        None \<Rightarrow> (Inl (Error ''You must be logged in to create a session''), [], g)
      | Some usr \<Rightarrow>
          if User.role usr \<noteq> ''instructor''
          then (Inl (Error ''Only instructors can create sessions''), [], g)
          else
            (let g1 = g\<lparr>GDState.isLoading := True\<rparr>
             in case toISOString (SessionData.date sessionData) of
                  Inl err \<Rightarrow> (Inl err, [], g1\<lparr>GDState.isLoading := False\<rparr>)
                | Inr isoDate \<Rightarrow>
                    (let req = \<lparr>httpMethod = ''POST'', url = ''/create-session'',
                                authorization = bearer tok,
                                body = CreateSessionBody
                                  (SessionData.topic sessionData)
                                  (SessionData.details sessionData)
                                  (groupName sessionData)
                                  (groupNumber sessionData)
                                  isoDate
                                  (SessionData.participants sessionData)
                                  (SessionData.evaluators sessionData)\<rparr>
                     in case r of
                          FetchRejected m \<Rightarrow>
                            (Inl (Error m), [req], g1\<lparr>GDState.isLoading := False\<rparr>)
                        | NotOk e \<Rightarrow>
                            (Inl (responseError e ''Failed to create session''), [req],
                             g1\<lparr>GDState.isLoading := False\<rparr>)
                        | Ok (JsonRejected m) \<Rightarrow>
                            (Inl (Error m), [req], g1\<lparr>GDState.isLoading := False\<rparr>)
                        | Ok (Json newSession) \<Rightarrow>
                            (let formattedSession = formatSession newSession;
                                 g2 = g1\<lparr>sessions := sessions g1 @ [formattedSession]\<rparr>;
                                 refreshed = fetchData u tok rs re g2
                             in (Inr formattedSession, req # fst refreshed,
                                 (snd refreshed)\<lparr>GDState.isLoading := False\<rparr>)))))"

text \<open>
  \<^verbatim>\<open>submitEvaluation\<close> has the same shape, with the single check that a user is logged
  in.
\<close>

definition submitEvaluation ::
  "User option \<Rightarrow> string option \<Rightarrow> string \<Rightarrow> string \<Rightarrow> EvaluationCriteria
     \<Rightarrow> 'a EvaluationRow_scheme response
     \<Rightarrow> 'b SessionRow_scheme list response \<Rightarrow> 'c EvaluationRow_scheme list response
     \<Rightarrow> GDState \<Rightarrow> (error + Evaluation) \<times> request list \<times> GDState" where
  "submitEvaluation u tok gdSessionId' studentId' criteria' r rs re g =
     (case u of
        None \<Rightarrow> (Inl (Error ''You must be logged in to submit an evaluation''), [], g)
      | Some usr \<Rightarrow>
          (let g1 = g\<lparr>GDState.isLoading := True\<rparr>;
               req = \<lparr>httpMethod = ''POST'', url = ''/submit-evaluation'',
                      authorization = bearer tok,
                      body = SubmitEvaluationBody gdSessionId' studentId' criteria'\<rparr>
           in case r of
                FetchRejected m \<Rightarrow> (Inl (Error m), [req], g1\<lparr>GDState.isLoading := False\<rparr>)
              | NotOk e \<Rightarrow>
                  (Inl (responseError e ''Failed to submit evaluation''), [req],
                   g1\<lparr>GDState.isLoading := False\<rparr>)
              | Ok (JsonRejected m) \<Rightarrow>
                  (Inl (Error m), [req], g1\<lparr>GDState.isLoading := False\<rparr>)
              | Ok (Json newEvaluation) \<Rightarrow>
                  (let formattedEvaluation = formatEvaluation (sessions g1) newEvaluation;
                       g2 = g1\<lparr>evaluations := evaluations g1 @ [formattedEvaluation]\<rparr>;
                       refreshed = fetchData u tok rs re g2
                   in (Inr formattedEvaluation, req # fst refreshed,
                       (snd refreshed)\<lparr>GDState.isLoading := False\<rparr>))))"

subsection \<open>Queries\<close>

text \<open>
  The queries read the provider's collections and the current user; they are given what
  they read. \<^verbatim>\<open>includes\<close> on an array of strings is membership.
\<close>

definition getSessionById :: "GDSession list \<Rightarrow> string \<Rightarrow> GDSession option" where
  "getSessionById ss id' = find (\<lambda>session. GDSession.id session = id') ss"

definition getSessionsForUser :: "User option \<Rightarrow> GDSession list \<Rightarrow> SessionsForUser" where
  "getSessionsForUser u ss =
     (case u of
        None \<Rightarrow> \<lparr>participatingSessions = [], evaluatingSessions = []\<rparr>
      | Some usr \<Rightarrow>
          if User.role usr = ''instructor''
          then (let createdSessions = filter (\<lambda>session. createdBy session = User.id usr) ss
                in \<lparr>participatingSessions = [], evaluatingSessions = createdSessions\<rparr>)
          else
            (let rollNumber' = orEmpty (User.rollNumber usr);
                 participatingSessions' =
                   filter (\<lambda>session. rollNumber' \<in> set (SessionData.participants session)) ss;
                 evaluatingSessions' =
                   filter (\<lambda>session. rollNumber' \<in> set (SessionData.evaluators session)) ss
             in \<lparr>participatingSessions = participatingSessions',
                 evaluatingSessions = evaluatingSessions'\<rparr>))"

definition getEvaluationsForSession :: "Evaluation list \<Rightarrow> string \<Rightarrow> Evaluation list" where
  "getEvaluationsForSession evs sessionId = filter (\<lambda>e. gdSessionId e = sessionId) evs"

subsection \<open>Score aggregation\<close>

text \<open>
  \<^verbatim>\<open>calculateScores(sessionId, studentId)\<close> reads the provider's \<^verbatim>\<open>evaluations\<close>;
  the collection is the first argument here. \<^verbatim>\<open>reduce((sum, e) => sum + f(e), 0)\<close> is
  a left fold from 0, and \<^verbatim>\<open>instructorEvaluations[0]\<close> is read only under the guard
  \<^verbatim>\<open>length > 0\<close>.
\<close>

definition calculateScores :: "Evaluation list \<Rightarrow> string \<Rightarrow> string \<Rightarrow> Scores" where
  "calculateScores evs sessionId studentId' =
    (let sessionEvaluations =
           filter (\<lambda>e. gdSessionId e = sessionId \<and> studentId e = studentId') evs;
         emptyCriteria = \<lparr>articulation = 0, relevance = 0, leadership = 0,
                          nonVerbalCommunication = 0, impression = 0\<rparr>
     in if length sessionEvaluations = 0
        then \<lparr>peerAverage = emptyCriteria, instructorScores = emptyCriteria,
              finalScores = emptyCriteria\<rparr>
        else
          (let peerEvaluations = filter (\<lambda>e. evaluatorRole e = ''student'') sessionEvaluations;
               instructorEvaluations =
                 filter (\<lambda>e. evaluatorRole e = ''instructor'') sessionEvaluations;
               peerAverage' =
                 (if length peerEvaluations > 0
                  then \<lparr>articulation =
                          foldl (\<lambda>sum e. sum + articulation (criteria e)) 0 peerEvaluations
                            / real (length peerEvaluations),
                        relevance =
                          foldl (\<lambda>sum e. sum + relevance (criteria e)) 0 peerEvaluations
                            / real (length peerEvaluations),
                        leadership =
                          foldl (\<lambda>sum e. sum + leadership (criteria e)) 0 peerEvaluations
                            / real (length peerEvaluations),
                        nonVerbalCommunication =
                          foldl (\<lambda>sum e. sum + nonVerbalCommunication (criteria e)) 0
                              peerEvaluations
                            / real (length peerEvaluations),
                        impression =
                          foldl (\<lambda>sum e. sum + impression (criteria e)) 0 peerEvaluations
                            / real (length peerEvaluations)\<rparr>
                  else emptyCriteria);
               instructorScores' =
                 (if length instructorEvaluations > 0
                  then criteria (instructorEvaluations ! 0)
                  else emptyCriteria);
               finalScores' =
                 \<lparr>articulation =
                    (articulation peerAverage' + articulation instructorScores') / 2,
                  relevance = (relevance peerAverage' + relevance instructorScores') / 2,
                  leadership = (leadership peerAverage' + leadership instructorScores') / 2,
                  nonVerbalCommunication =
                    (nonVerbalCommunication peerAverage'
                      + nonVerbalCommunication instructorScores') / 2,
                  impression = (impression peerAverage' + impression instructorScores') / 2\<rparr>
           in \<lparr>peerAverage = peerAverage', instructorScores = instructorScores',
                finalScores = finalScores'\<rparr>))"

section \<open>The aggregation as the specification words it\<close>

text \<open>
  These definitions follow the specification, not the code: the evaluations of the
  (session, student) pair, its two partitions by role, the arithmetic mean of one
  criterion, and the three records built from them.
\<close>

definition zeroCriteria :: EvaluationCriteria where
  "zeroCriteria = \<lparr>articulation = 0, relevance = 0, leadership = 0,
                    nonVerbalCommunication = 0, impression = 0\<rparr>"

definition pairEvaluations :: "Evaluation list \<Rightarrow> string \<Rightarrow> string \<Rightarrow> Evaluation list" where
  "pairEvaluations evs sessionId studentId' =
     filter (\<lambda>e. gdSessionId e = sessionId \<and> studentId e = studentId') evs"

definition withRole :: "string \<Rightarrow> Evaluation list \<Rightarrow> Evaluation list" where
  "withRole r es = filter (\<lambda>e. evaluatorRole e = r) es"

definition criterionMean :: "(EvaluationCriteria \<Rightarrow> real) \<Rightarrow> Evaluation list \<Rightarrow> real" where
  "criterionMean f es = sum_list (map (\<lambda>e. f (criteria e)) es) / real (length es)"

definition meanCriteria :: "Evaluation list \<Rightarrow> EvaluationCriteria" where
  "meanCriteria es =
     (case es of
        [] \<Rightarrow> zeroCriteria
      | _ # _ \<Rightarrow> \<lparr>articulation = criterionMean articulation es,
                  relevance = criterionMean relevance es,
                  leadership = criterionMean leadership es,
                  nonVerbalCommunication = criterionMean nonVerbalCommunication es,
                  impression = criterionMean impression es\<rparr>)"

definition firstCriteria :: "Evaluation list \<Rightarrow> EvaluationCriteria" where
  "firstCriteria es = (case es of [] \<Rightarrow> zeroCriteria | e # _ \<Rightarrow> criteria e)"

definition halfSum :: "EvaluationCriteria \<Rightarrow> EvaluationCriteria \<Rightarrow> EvaluationCriteria" where
  "halfSum p i =
     \<lparr>articulation = (articulation p + articulation i) / 2,
      relevance = (relevance p + relevance i) / 2,
      leadership = (leadership p + leadership i) / 2,
      nonVerbalCommunication = (nonVerbalCommunication p + nonVerbalCommunication i) / 2,
      impression = (impression p + impression i) / 2\<rparr>"


section \<open>Example data\<close>

text \<open>The data provider as it starts: empty collections, loading flag down.\<close>

definition initialGDState :: GDState where
  "initialGDState = \<lparr>sessions = [], evaluations = [], GDState.isLoading = False\<rparr>"

text \<open>
  The example of the specification: one peer scores 8, 6, 7, 5, 9 and the instructor
  scores 10 throughout, for student \<open>s1\<close> in session \<open>gd1\<close>.
\<close>

definition peerEvaluation :: Evaluation where
  "peerEvaluation =
     \<lparr>Evaluation.id = ''e1'', gdSessionId = ''gd1'', studentId = ''s1'',
      evaluatorId = Value ''s2'', evaluatorRole = ''student'',
      criteria = \<lparr>articulation = 8, relevance = 6, leadership = 7,
                  nonVerbalCommunication = 5, impression = 9\<rparr>,
      Evaluation.createdAt = ValidDate ''2024-01-01T00:00:00.000Z''\<rparr>"

definition instructorEvaluation :: Evaluation where
  "instructorEvaluation =
     \<lparr>Evaluation.id = ''e2'', gdSessionId = ''gd1'', studentId = ''s1'',
      evaluatorId = Value ''t1'', evaluatorRole = ''instructor'',
      criteria = \<lparr>articulation = 10, relevance = 10, leadership = 10,
                  nonVerbalCommunication = 10, impression = 10\<rparr>,
      Evaluation.createdAt = ValidDate ''2024-01-01T00:00:00.000Z''\<rparr>"

text \<open>An instructor's evaluation whose five scores differ.\<close>

definition gradedEvaluation :: Evaluation where
  "gradedEvaluation =
     \<lparr>Evaluation.id = ''e4'', gdSessionId = ''gd1'', studentId = ''s1'',
      evaluatorId = Value ''t1'', evaluatorRole = ''instructor'',
      criteria = \<lparr>articulation = 6, relevance = 7, leadership = 8,
                  nonVerbalCommunication = 9, impression = 3\<rparr>,
      Evaluation.createdAt = ValidDate ''2024-01-01T00:00:00.000Z''\<rparr>"

definition exampleSession :: GDSession where
  "exampleSession =
     \<lparr>SessionData.topic = ''Remote work'', SessionData.details = ''Round 1'',
      groupName = ''A'', groupNumber = 1,
      SessionData.date = ValidDate ''2024-01-01T00:00:00.000Z'',
      SessionData.participants = [''21CS001'', ''21CS002''],
      SessionData.evaluators = [''21CS001'', ''21CS003''],
      GDSession.id = ''gd1'', createdBy = ''t1'',
      GDSession.createdAt = ValidDate ''2023-12-31T00:00:00.000Z''\<rparr>"

definition otherSession :: GDSession where
  "otherSession =
     \<lparr>SessionData.topic = ''Open source'', SessionData.details = ''Round 2'',
      groupName = ''B'', groupNumber = 2,
      SessionData.date = ValidDate ''2024-01-02T00:00:00.000Z'',
      SessionData.participants = [''21CS004''],
      SessionData.evaluators = [''21CS005''],
      GDSession.id = ''gd2'', createdBy = ''t2'',
      GDSession.createdAt = ValidDate ''2023-12-31T00:00:00.000Z''\<rparr>"

definition exampleInstructor :: User where
  "exampleInstructor =
     \<lparr>User.id = ''t1'', User.name = ''Asha'', User.email = ''asha@example.org'',
      User.role = ''instructor'', User.department = None, User.section' = None,
      User.year = None, User.rollNumber = None, User.designation = Some ''Professor'',
      User.createdAt = ValidDate ''2023-01-01T00:00:00.000Z''\<rparr>"

definition exampleStudent :: User where
  "exampleStudent =
     \<lparr>User.id = ''s1'', User.name = ''Ravi'', User.email = ''ravi@example.org'',
      User.role = ''student'', User.department = Some ''CSE'', User.section' = Some ''A'',
      User.year = Some ''3'', User.rollNumber = Some ''21CS001'', User.designation = None,
      User.createdAt = ValidDate ''2023-01-01T00:00:00.000Z''\<rparr>"

definition exampleSessionData :: SessionData where
  "exampleSessionData =
     \<lparr>SessionData.topic = ''Remote work'', SessionData.details = ''Round 1'',
      groupName = ''A'', groupNumber = 1,
      SessionData.date = ValidDate ''2024-01-01T00:00:00.000Z'',
      SessionData.participants = [''21CS001'', ''21CS002''],
      SessionData.evaluators = [''21CS001'', ''21CS003'']\<rparr>"

definition exampleEvaluationRow :: EvaluationRow where
  "exampleEvaluationRow =
     \<lparr>EvaluationRow.id = ''e1'', gd_session_id = ''gd1'', student_id = ''s1'',
      evaluator_id = Value ''t1'',
      EvaluationRow.articulation = 8, EvaluationRow.relevance = 6,
      EvaluationRow.leadership = 7, non_verbal_communication = 5,
      EvaluationRow.impression = 9,
      EvaluationRow.created_at = ValidDate ''2024-01-01T00:00:00.000Z''\<rparr>"

definition orphanEvaluationRow :: EvaluationRow where
  "orphanEvaluationRow =
     \<lparr>EvaluationRow.id = ''e9'', gd_session_id = ''gd9'', student_id = ''s1'',
      evaluator_id = Value ''t1'',
      EvaluationRow.articulation = 8, EvaluationRow.relevance = 6,
      EvaluationRow.leadership = 7, non_verbal_communication = 5,
      EvaluationRow.impression = 9,
      EvaluationRow.created_at = ValidDate ''2024-01-01T00:00:00.000Z''\<rparr>"

text \<open>A row without an evaluator id, for a session that is not in memory.\<close>

definition anonymousOrphanRow :: EvaluationRow where
  "anonymousOrphanRow =
     \<lparr>EvaluationRow.id = ''e8'', gd_session_id = ''gd9'', student_id = ''s1'',
      evaluator_id = Undefined,
      EvaluationRow.articulation = 8, EvaluationRow.relevance = 6,
      EvaluationRow.leadership = 7, non_verbal_communication = 5,
      EvaluationRow.impression = 9,
      EvaluationRow.created_at = ValidDate ''2024-01-01T00:00:00.000Z''\<rparr>"

definition exampleSessionRow :: SessionRow where
  "exampleSessionRow =
     \<lparr>SessionRow.id = ''gd1'', SessionRow.topic = ''Remote work'',
      SessionRow.details = ''Round 1'', group_name = ''A'', group_number = 1,
      SessionRow.date = ValidDate ''2024-01-01T00:00:00.000Z'',
      SessionRow.participants = Some [''21CS001'', ''21CS002''],
      SessionRow.evaluators = None,
      created_by = ''t1'',
      SessionRow.created_at = ValidDate ''2023-12-31T00:00:00.000Z''\<rparr>"

definition loggedOut :: AuthState where
  "loggedOut = \<lparr>user = None, AuthState.isLoading = False, authToken = Some ''stale-token''\<rparr>"

definition busyGDState :: GDState where
  "busyGDState = \<lparr>sessions = [exampleSession], evaluations = [peerEvaluation],
                   GDState.isLoading = True\<rparr>"




section \<open>Properties of the score aggregation\<close>

lemma foldl_plus_sum_list:
  "foldl (\<lambda>sum e. sum + g e) a es = a + sum_list (map g es)" for a :: real
  by (induction es arbitrary: a) simp_all

lemma meanCriteria_foldl:
  "es \<noteq> [] \<Longrightarrow>
     \<lparr>articulation =
        foldl (\<lambda>sum e. sum + articulation (criteria e)) 0 es / real (length es),
      relevance = foldl (\<lambda>sum e. sum + relevance (criteria e)) 0 es / real (length es),
      leadership = foldl (\<lambda>sum e. sum + leadership (criteria e)) 0 es / real (length es),
      nonVerbalCommunication =
        foldl (\<lambda>sum e. sum + nonVerbalCommunication (criteria e)) 0 es / real (length es),
      impression = foldl (\<lambda>sum e. sum + impression (criteria e)) 0 es / real (length es)\<rparr>
     = meanCriteria es"
  by (cases es) (simp_all add: meanCriteria_def criterionMean_def foldl_plus_sum_list)

lemma meanCriteria_Nil: "meanCriteria [] = zeroCriteria"
  by (simp add: meanCriteria_def)

lemma firstCriteria_nth: "es \<noteq> [] \<Longrightarrow> criteria (es ! 0) = firstCriteria es"
  by (cases es) (simp_all add: firstCriteria_def)

lemma firstCriteria_Nil: "firstCriteria [] = zeroCriteria"
  by (simp add: firstCriteria_def)

lemma halfSum_zero: "halfSum zeroCriteria zeroCriteria = zeroCriteria"
  by (simp add: halfSum_def zeroCriteria_def)

lemma calculateScores_eq:
  "calculateScores evs sessionId studentId' =
     \<lparr>peerAverage =
        meanCriteria (withRole ''student'' (pairEvaluations evs sessionId studentId')),
      instructorScores =
        firstCriteria (withRole ''instructor'' (pairEvaluations evs sessionId studentId')),
      finalScores =
        halfSum
          (meanCriteria (withRole ''student'' (pairEvaluations evs sessionId studentId')))
          (firstCriteria
            (withRole ''instructor'' (pairEvaluations evs sessionId studentId')))\<rparr>"
proof -
  define se where "se = pairEvaluations evs sessionId studentId'"
  define P where "P = withRole ''student'' se"
  define I where "I = withRole ''instructor'' se"
  have unfolded:
    "calculateScores evs sessionId studentId' =
      (if se = []
       then \<lparr>peerAverage = zeroCriteria, instructorScores = zeroCriteria,
             finalScores = zeroCriteria\<rparr>
       else \<lparr>peerAverage = meanCriteria P, instructorScores = firstCriteria I,
             finalScores = halfSum (meanCriteria P) (firstCriteria I)\<rparr>)"
  proof (cases "se = []")
    case True
    then show ?thesis
      unfolding calculateScores_def Let_def zeroCriteria_def se_def pairEvaluations_def
      by simp
  next
    case False
    have p: "(if length P > 0
              then \<lparr>articulation =
                      foldl (\<lambda>sum e. sum + articulation (criteria e)) 0 P / real (length P),
                    relevance =
                      foldl (\<lambda>sum e. sum + relevance (criteria e)) 0 P / real (length P),
                    leadership =
                      foldl (\<lambda>sum e. sum + leadership (criteria e)) 0 P / real (length P),
                    nonVerbalCommunication =
                      foldl (\<lambda>sum e. sum + nonVerbalCommunication (criteria e)) 0 P
                        / real (length P),
                    impression =
                      foldl (\<lambda>sum e. sum + impression (criteria e)) 0 P / real (length P)\<rparr>
              else \<lparr>articulation = 0, relevance = 0, leadership = 0,
                    nonVerbalCommunication = 0, impression = 0\<rparr>) = meanCriteria P"
      using meanCriteria_foldl [of P]
      by (cases "P = []") (simp_all add: meanCriteria_Nil zeroCriteria_def)
    have i: "(if length I > 0 then criteria (I ! 0)
              else \<lparr>articulation = 0, relevance = 0, leadership = 0,
                    nonVerbalCommunication = 0, impression = 0\<rparr>) = firstCriteria I"
      using firstCriteria_nth [of I]
      by (cases "I = []") (simp_all add: firstCriteria_Nil zeroCriteria_def)
    have "calculateScores evs sessionId studentId' =
            \<lparr>peerAverage = meanCriteria P, instructorScores = firstCriteria I,
             finalScores = halfSum (meanCriteria P) (firstCriteria I)\<rparr>"
      unfolding calculateScores_def Let_def
      unfolding pairEvaluations_def [symmetric] se_def [symmetric]
      unfolding withRole_def [symmetric] P_def [symmetric] I_def [symmetric]
      unfolding p i halfSum_def [symmetric]
      using False by simp
    with False show ?thesis by simp
  qed
  show ?thesis
  proof (cases "se = []")
    case True
    then have "P = []" "I = []" by (simp_all add: P_def I_def withRole_def)
    with True unfolded show ?thesis
      unfolding se_def [symmetric] P_def [symmetric] I_def [symmetric]
      by (simp add: meanCriteria_Nil firstCriteria_Nil halfSum_zero)
  next
    case False
    with unfolded show ?thesis
      unfolding se_def [symmetric] P_def [symmetric] I_def [symmetric] by simp
  qed
qed

lemma withRole_none:
  "\<forall>e \<in> set es. evaluatorRole e = r \<Longrightarrow> r \<noteq> r' \<Longrightarrow> withRole r' es = []"
  by (auto simp add: withRole_def filter_empty_conv)

text \<open>
  The example of the specification, computed by the code: the final articulation is
  \<open>(8 + 10) / 2 = 9\<close>.
\<close>

lemma specification_example:
  "calculateScores [peerEvaluation, instructorEvaluation] ''gd1'' ''s1'' =
     \<lparr>peerAverage = \<lparr>articulation = 8, relevance = 6, leadership = 7,
                      nonVerbalCommunication = 5, impression = 9\<rparr>,
      instructorScores = \<lparr>articulation = 10, relevance = 10, leadership = 10,
                      nonVerbalCommunication = 10, impression = 10\<rparr>,
      finalScores = \<lparr>articulation = 9, relevance = 8, leadership = 17 / 2,
                      nonVerbalCommunication = 15 / 2, impression = 19 / 2\<rparr>\<rparr>"
  by (simp add: calculateScores_def peerEvaluation_def instructorEvaluation_def)

text \<open>
  Claim C1. \<^verbatim>\<open>calculateScores(sessionId, studentId)\<close> filters the evaluations to the
  (session, student) pair and partitions them by \<^verbatim>\<open>evaluatorRole\<close>. The peer average is
  the arithmetic mean of each criterion over the student-role evaluations, all-zero if
  there are none; the instructor score is the criteria of the first instructor-role
  evaluation, all-zero if there are none; the final score is, criterion by criterion,
  (peer average + instructor score) / 2; and when no evaluation belongs to the pair all
  three records are all-zero.
\<close>

theorem calculateScores_aggregation:
  "peerAverage (calculateScores evs sessionId studentId') =
     meanCriteria (withRole ''student'' (pairEvaluations evs sessionId studentId'))
   \<and> instructorScores (calculateScores evs sessionId studentId') =
     firstCriteria (withRole ''instructor'' (pairEvaluations evs sessionId studentId'))
   \<and> finalScores (calculateScores evs sessionId studentId') =
     halfSum (peerAverage (calculateScores evs sessionId studentId'))
       (instructorScores (calculateScores evs sessionId studentId'))
   \<and> (pairEvaluations evs sessionId studentId' = [] \<longrightarrow>
        calculateScores evs sessionId studentId' =
          \<lparr>peerAverage = zeroCriteria, instructorScores = zeroCriteria,
           finalScores = zeroCriteria\<rparr>)"
  by (simp add: calculateScores_eq withRole_def meanCriteria_Nil firstCriteria_Nil halfSum_zero)

text \<open>
  The early return of C1 at a collection that holds evaluations, none of them for the
  student asked for.
\<close>

theorem calculateScores_aggregation_witness:
  "pairEvaluations [peerEvaluation, instructorEvaluation] ''gd1'' ''s7'' = []
   \<and> calculateScores [peerEvaluation, instructorEvaluation] ''gd1'' ''s7'' =
         \<lparr>peerAverage = zeroCriteria, instructorScores = zeroCriteria,
          finalScores = zeroCriteria\<rparr>"
proof -
  have h: "pairEvaluations [peerEvaluation, instructorEvaluation] ''gd1'' ''s7'' = []"
    by (simp add: pairEvaluations_def peerEvaluation_def instructorEvaluation_def)
  with calculateScores_aggregation [of "[peerEvaluation, instructorEvaluation]" "''gd1''" "''s7''"]
  show ?thesis by simp
qed

text \<open>
  Claim C2 as the specification states it: with peer evaluations only, the final scores
  equal the peer average. The code does not do that: with the single peer evaluation of
  the example the peer average of articulation is 8 and the final score is 4.
\<close>

theorem peer_only_final_counterexample:
  "map evaluatorRole (pairEvaluations [peerEvaluation] ''gd1'' ''s1'') = [''student'']
   \<and> finalScores (calculateScores [peerEvaluation] ''gd1'' ''s1'')
       \<noteq> peerAverage (calculateScores [peerEvaluation] ''gd1'' ''s1'')"
  by (simp add: calculateScores_def pairEvaluations_def peerEvaluation_def)

text \<open>
  Claim C2, amended. For a non-empty set of evaluations of a (session, student) pair that
  are all of role student, every criterion of the final scores is the same criterion of
  the peer average divided by 2: the absent instructor counts as the zero record and is
  averaged in.
\<close>

theorem peer_only_final_is_half_peerAverage:
  assumes "pairEvaluations evs sessionId studentId' \<noteq> []"
    and "\<forall>e \<in> set (pairEvaluations evs sessionId studentId'). evaluatorRole e = ''student''"
  shows "articulation (finalScores (calculateScores evs sessionId studentId')) =
           articulation (peerAverage (calculateScores evs sessionId studentId')) / 2
       \<and> relevance (finalScores (calculateScores evs sessionId studentId')) =
           relevance (peerAverage (calculateScores evs sessionId studentId')) / 2
       \<and> leadership (finalScores (calculateScores evs sessionId studentId')) =
           leadership (peerAverage (calculateScores evs sessionId studentId')) / 2
       \<and> nonVerbalCommunication (finalScores (calculateScores evs sessionId studentId')) =
           nonVerbalCommunication (peerAverage (calculateScores evs sessionId studentId')) / 2
       \<and> impression (finalScores (calculateScores evs sessionId studentId')) =
           impression (peerAverage (calculateScores evs sessionId studentId')) / 2"
proof -
  have "withRole ''instructor'' (pairEvaluations evs sessionId studentId') = []"
    using withRole_none [OF assms(2), of "''instructor''"] by simp
  then show ?thesis
    by (simp add: calculateScores_eq firstCriteria_Nil halfSum_def zeroCriteria_def)
qed

theorem peer_only_final_is_half_peerAverage_witness:
  "articulation (finalScores (calculateScores [peerEvaluation] ''gd1'' ''s1'')) = 4
   \<and> articulation (peerAverage (calculateScores [peerEvaluation] ''gd1'' ''s1'')) = 8"
proof -
  have ne: "pairEvaluations [peerEvaluation] ''gd1'' ''s1'' \<noteq> []"
    by (simp add: pairEvaluations_def peerEvaluation_def)
  have st: "\<forall>e \<in> set (pairEvaluations [peerEvaluation] ''gd1'' ''s1''). evaluatorRole e = ''student''"
    by (simp add: pairEvaluations_def peerEvaluation_def)
  have pa: "articulation (peerAverage (calculateScores [peerEvaluation] ''gd1'' ''s1'')) = 8"
    by (simp add: calculateScores_def peerEvaluation_def)
  from peer_only_final_is_half_peerAverage [OF ne st] pa show ?thesis by simp
qed

text \<open>
  Claim C3. For a non-empty set of evaluations of a (session, student) pair that are all
  of role instructor, the instructor score is the criteria of the first of these
  evaluations, and every criterion of the final scores is the same criterion of that
  instructor score divided by 2.
\<close>

theorem instructor_only_final_is_half_instructorScores:
  assumes "pairEvaluations evs sessionId studentId' \<noteq> []"
    and "\<forall>e \<in> set (pairEvaluations evs sessionId studentId'). evaluatorRole e = ''instructor''"
  shows "instructorScores (calculateScores evs sessionId studentId') =
           criteria (hd (pairEvaluations evs sessionId studentId'))
       \<and> articulation (finalScores (calculateScores evs sessionId studentId')) =
           articulation (criteria (hd (pairEvaluations evs sessionId studentId'))) / 2
       \<and> relevance (finalScores (calculateScores evs sessionId studentId')) =
           relevance (criteria (hd (pairEvaluations evs sessionId studentId'))) / 2
       \<and> leadership (finalScores (calculateScores evs sessionId studentId')) =
           leadership (criteria (hd (pairEvaluations evs sessionId studentId'))) / 2
       \<and> nonVerbalCommunication (finalScores (calculateScores evs sessionId studentId')) =
           nonVerbalCommunication (criteria (hd (pairEvaluations evs sessionId studentId'))) / 2
       \<and> impression (finalScores (calculateScores evs sessionId studentId')) =
           impression (criteria (hd (pairEvaluations evs sessionId studentId'))) / 2
       \<and> articulation (finalScores (calculateScores evs sessionId studentId')) =
           articulation (instructorScores (calculateScores evs sessionId studentId')) / 2
       \<and> relevance (finalScores (calculateScores evs sessionId studentId')) =
           relevance (instructorScores (calculateScores evs sessionId studentId')) / 2
       \<and> leadership (finalScores (calculateScores evs sessionId studentId')) =
           leadership (instructorScores (calculateScores evs sessionId studentId')) / 2
       \<and> nonVerbalCommunication (finalScores (calculateScores evs sessionId studentId')) =
           nonVerbalCommunication (instructorScores (calculateScores evs sessionId studentId')) / 2
       \<and> impression (finalScores (calculateScores evs sessionId studentId')) =
           impression (instructorScores (calculateScores evs sessionId studentId')) / 2"
proof -
  have peers: "withRole ''student'' (pairEvaluations evs sessionId studentId') = []"
    using withRole_none [OF assms(2), of "''student''"] by simp
  have instructors:
    "withRole ''instructor'' (pairEvaluations evs sessionId studentId') =
       pairEvaluations evs sessionId studentId'"
    using assms(2) by (simp add: withRole_def)
  have first:
    "firstCriteria (pairEvaluations evs sessionId studentId') =
       criteria (hd (pairEvaluations evs sessionId studentId'))"
    using assms(1) by (cases "pairEvaluations evs sessionId studentId'")
      (simp_all add: firstCriteria_def)
  from peers instructors first show ?thesis
    by (simp add: calculateScores_eq meanCriteria_Nil halfSum_def zeroCriteria_def)
qed

text \<open>
  An instructor who scored 6, 7, 8, 9 and 3, before a second instructor evaluation that
  scored 10 throughout: the final scores are 3, 3.5, 4, 4.5 and 1.5.
\<close>

theorem instructor_only_final_is_half_instructorScores_witness:
  "instructorScores (calculateScores [gradedEvaluation, instructorEvaluation] ''gd1'' ''s1'') =
     \<lparr>articulation = 6, relevance = 7, leadership = 8, nonVerbalCommunication = 9,
      impression = 3\<rparr>
   \<and> finalScores (calculateScores [gradedEvaluation, instructorEvaluation] ''gd1'' ''s1'') =
     \<lparr>articulation = 3, relevance = 7 / 2, leadership = 4, nonVerbalCommunication = 9 / 2,
      impression = 3 / 2\<rparr>"
proof -
  have pair: "pairEvaluations [gradedEvaluation, instructorEvaluation] ''gd1'' ''s1'' =
                [gradedEvaluation, instructorEvaluation]"
    by (simp add: pairEvaluations_def gradedEvaluation_def instructorEvaluation_def)
  have ne: "pairEvaluations [gradedEvaluation, instructorEvaluation] ''gd1'' ''s1'' \<noteq> []"
    by (simp add: pair)
  have ins: "\<forall>e \<in> set (pairEvaluations [gradedEvaluation, instructorEvaluation] ''gd1'' ''s1'').
               evaluatorRole e = ''instructor''"
    unfolding pair by (simp add: gradedEvaluation_def instructorEvaluation_def)
  have graded: "criteria gradedEvaluation =
                  \<lparr>articulation = 6, relevance = 7, leadership = 8,
                   nonVerbalCommunication = 9, impression = 3\<rparr>"
    by (simp add: gradedEvaluation_def)
  from instructor_only_final_is_half_instructorScores [OF ne ins]
  have "instructorScores (calculateScores [gradedEvaluation, instructorEvaluation] ''gd1'' ''s1'')
          = criteria gradedEvaluation
        \<and> articulation (finalScores
            (calculateScores [gradedEvaluation, instructorEvaluation] ''gd1'' ''s1'')) = 3
        \<and> relevance (finalScores
            (calculateScores [gradedEvaluation, instructorEvaluation] ''gd1'' ''s1'')) = 7 / 2
        \<and> leadership (finalScores
            (calculateScores [gradedEvaluation, instructorEvaluation] ''gd1'' ''s1'')) = 4
        \<and> nonVerbalCommunication (finalScores
            (calculateScores [gradedEvaluation, instructorEvaluation] ''gd1'' ''s1'')) = 9 / 2
        \<and> impression (finalScores
            (calculateScores [gradedEvaluation, instructorEvaluation] ''gd1'' ''s1'')) = 3 / 2"
    by (simp add: pair graded)
  then show ?thesis
    by (simp add: graded EvaluationCriteria.equality)
qed

section \<open>Properties of the authentication provider\<close>

text \<open>
  Claim C4 as the specification states it: a login that receives a response that is not
  2xx removes the stored token. The code does not: \<^verbatim>\<open>login\<close> never calls
  \<^verbatim>\<open>localStorage.removeItem\<close>, so a token stored before the call is still stored
  after it.
\<close>

theorem login_keeps_token_counterexample:
  "authToken loggedOut = Some ''stale-token''
   \<and> authToken (snd (snd (login ''ravi@example.org'' ''wrong'' (NotOk (Json None)) loggedOut)))
       = Some ''stale-token''"
  by (simp add: login_def loggedOut_def)

text \<open>
  Claim C4, amended. A login that receives a response that is not 2xx surfaces the error
  \<open>Login failed\<close> to the caller and leaves the stored token and the user as they were
  (the user stays null when it was null); the loading flag ends down.
\<close>

theorem login_not_ok:
  "fst (login email' password' (NotOk e) a) = Inl (Error ''Login failed'')
   \<and> authToken (snd (snd (login email' password' (NotOk e) a))) = authToken a
   \<and> user (snd (snd (login email' password' (NotOk e) a))) = user a
   \<and> AuthState.isLoading (snd (snd (login email' password' (NotOk e) a))) = False"
  by (simp add: login_def orDefault_def)

theorem login_not_ok_witness:
  "fst (login ''ravi@example.org'' ''wrong'' (NotOk (Json None)) loggedOut)
     = Inl (Error ''Login failed'')
   \<and> user (snd (snd (login ''ravi@example.org'' ''wrong'' (NotOk (Json None)) loggedOut)))
     = None"
  using login_not_ok [of "''ravi@example.org''" "''wrong''" "Json None" loggedOut]
  by (simp add: loggedOut_def)

section \<open>Properties of the evaluation data provider\<close>

subsection \<open>Permissions and views\<close>

text \<open>
  Claim C5. A call of \<^verbatim>\<open>createSession\<close> by a caller that is not logged in or whose
  role is not instructor fails with a permission error, issues no request, and leaves the
  provider's state (sessions, evaluations and loading flag) as it was.
\<close>

theorem createSession_refused:
  assumes "u = None \<or> (\<exists>usr. u = Some usr \<and> User.role usr \<noteq> ''instructor'')"
  shows "createSession u tok sessionData r rs re g =
           (Inl (Error (if u = None then ''You must be logged in to create a session''
                        else ''Only instructors can create sessions'')),
            [], g)"
  using assms by (auto simp add: createSession_def)

theorem createSession_refused_witness:
  "createSession (Some exampleStudent) (Some ''tok'') exampleSessionData
     (Ok (Json exampleSessionRow)) (Ok (Json [exampleSessionRow]))
     (Ok (Json [exampleEvaluationRow])) busyGDState
   = (Inl (Error ''Only instructors can create sessions''), [], busyGDState)"
proof -
  have "Some exampleStudent = None
        \<or> (\<exists>usr. Some exampleStudent = Some usr \<and> User.role usr \<noteq> ''instructor'')"
    by (simp add: exampleStudent_def)
  from createSession_refused [OF this] show ?thesis by simp
qed

text \<open>
  Claim C6. For an instructor, \<^verbatim>\<open>getSessionsForUser\<close> returns as evaluating sessions
  exactly the sessions whose \<^verbatim>\<open>createdBy\<close> is the user's id, in the order of the
  collection, and no participating session.
\<close>

theorem getSessionsForUser_instructor:
  assumes "User.role usr = ''instructor''"
  shows "getSessionsForUser (Some usr) ss =
           \<lparr>participatingSessions = [],
            evaluatingSessions = filter (\<lambda>s. createdBy s = User.id usr) ss\<rparr>"
  using assms by (simp add: getSessionsForUser_def)

theorem getSessionsForUser_instructor_witness:
  "getSessionsForUser (Some exampleInstructor) [exampleSession, otherSession] =
     \<lparr>participatingSessions = [], evaluatingSessions = [exampleSession]\<rparr>"
proof -
  have "User.role exampleInstructor = ''instructor''"
    by (simp add: exampleInstructor_def)
  from getSessionsForUser_instructor [OF this, of "[exampleSession, otherSession]"]
  show ?thesis
    by (simp add: exampleInstructor_def exampleSession_def otherSession_def)
qed



subsection \<open>What the calls leave in the state\<close>

lemma formatEvaluation_instructor:
  "(evaluatorRole (formatEvaluation ss e) = ''instructor'') =
     ((case getSessionById ss (gd_session_id e) of
         None \<Rightarrow> Undefined
       | Some s \<Rightarrow> Value (createdBy s)) = evaluator_id e)"
  by (simp add: formatEvaluation_def getSessionById_def Let_def)

lemma formatEvaluation_student:
  "(evaluatorRole (formatEvaluation ss e) = ''student'') =
     (evaluatorRole (formatEvaluation ss e) \<noteq> ''instructor'')"
  by (simp add: formatEvaluation_def Let_def)



lemma fetchData_ok:
  "User.id usr \<noteq> [] \<Longrightarrow> orEmpty tok \<noteq> [] \<Longrightarrow>
   snd (fetchData (Some usr) tok (Ok (Json srows)) (Ok (Json erows)) g) =
      g\<lparr>sessions := map formatSession srows,
        evaluations := map (formatEvaluation (map formatSession srows)) erows,
        GDState.isLoading := False\<rparr>"
  by (simp add: fetchData_def Let_def)




lemma submitEvaluation_returns:
  "fst (submitEvaluation (Some usr) tok sessionId studentId' c (Ok (Json row)) rs re g)
     = Inr (formatEvaluation (sessions g) row)"
  by (simp add: submitEvaluation_def Let_def)

subsection \<open>The role of an evaluator\<close>




text \<open>
  Claim C10 as stated: a row whose session id matches no session in memory is never
  classified as an instructor's. The code does classify it so when the row has no
  evaluator id: \<^verbatim>\<open>session?.createdBy\<close> and \<^verbatim>\<open>e.evaluator_id\<close> are both
  \<^verbatim>\<open>undefined\<close>, in the normalisation of a fetched row and in the evaluation that
  \<^verbatim>\<open>submitEvaluation\<close> returns.
\<close>

theorem missing_session_instructor_counterexample:
  "getSessionById [exampleSession, otherSession] (gd_session_id anonymousOrphanRow) = None
   \<and> evaluatorRole (formatEvaluation [exampleSession, otherSession] anonymousOrphanRow)
       = ''instructor''
   \<and> getSessionById (sessions initialGDState) (gd_session_id anonymousOrphanRow) = None
   \<and> evaluatorRole
       (projr (fst (submitEvaluation (Some exampleStudent) (Some ''tok'') ''gd9'' ''s1''
          zeroCriteria (Ok (Json anonymousOrphanRow))
          (FetchRejected ''offline'' :: SessionRow list response)
          (FetchRejected ''offline'' :: EvaluationRow list response) initialGDState)))
       = ''instructor''"
  by (simp add: submitEvaluation_def Let_def formatEvaluation_def getSessionById_def
      initialGDState_def anonymousOrphanRow_def exampleSession_def otherSession_def)

text \<open>
  Claim C10, amended. A row that carries an evaluator id and whose session id matches no
  session in memory is classified as a student's evaluation: by the normalisation step
  itself, for every such row of a successful bulk fetch (against the sessions that fetch
  stored), and for the evaluation that \<^verbatim>\<open>submitEvaluation\<close> returns.
\<close>

theorem missing_session_is_student:
  "(getSessionById ss (gd_session_id e) = None \<and> evaluator_id e \<noteq> Undefined
      \<longrightarrow> evaluatorRole (formatEvaluation ss e) = ''student'')
   \<and> (User.id usr \<noteq> [] \<and> orEmpty tok \<noteq> [] \<longrightarrow>
        length (evaluations (snd (fetchData (Some usr) tok (Ok (Json srows))
                                   (Ok (Json erows)) g))) = length erows
        \<and> (\<forall>i < length erows.
              getSessionById
                (sessions (snd (fetchData (Some usr) tok (Ok (Json srows)) (Ok (Json erows)) g)))
                (gd_session_id (erows ! i)) = None
              \<and> evaluator_id (erows ! i) \<noteq> Undefined
              \<longrightarrow> evaluatorRole
                    (evaluations (snd (fetchData (Some usr) tok (Ok (Json srows))
                                         (Ok (Json erows)) g)) ! i) = ''student''))
   \<and> (getSessionById (sessions g') (gd_session_id row) = None
        \<and> evaluator_id row \<noteq> Undefined \<longrightarrow>
        (\<exists>ev. fst (submitEvaluation (Some usr') tok' sessionId studentId' c (Ok (Json row))
                     rs' re' g') = Inr ev
              \<and> evaluatorRole ev = ''student''))"
proof -
  have step: "evaluatorRole (formatEvaluation ss0 e0) = ''student''"
    if "getSessionById ss0 (gd_session_id e0) = None" and "evaluator_id e0 \<noteq> Undefined"
    for ss0 and e0 :: "'z EvaluationRow_scheme"
    using that by (auto simp add: formatEvaluation_student formatEvaluation_instructor)
  show ?thesis
  proof (intro conjI impI allI)
    assume "getSessionById ss (gd_session_id e) = None \<and> evaluator_id e \<noteq> Undefined"
    then show "evaluatorRole (formatEvaluation ss e) = ''student''"
      by (simp add: step)
  next
    assume "User.id usr \<noteq> [] \<and> orEmpty tok \<noteq> []"
    then show "length (evaluations (snd (fetchData (Some usr) tok (Ok (Json srows))
                                     (Ok (Json erows)) g))) = length erows"
      by (simp add: fetchData_ok)
  next
    fix i
    assume ok: "User.id usr \<noteq> [] \<and> orEmpty tok \<noteq> []"
      and i: "i < length erows"
      and unmatched: "getSessionById
                (sessions (snd (fetchData (Some usr) tok (Ok (Json srows)) (Ok (Json erows)) g)))
                (gd_session_id (erows ! i)) = None
              \<and> evaluator_id (erows ! i) \<noteq> Undefined"
    from ok unmatched
    have "evaluatorRole (formatEvaluation (map formatSession srows) (erows ! i)) = ''student''"
      by (simp add: fetchData_ok step)
    with ok i
    show "evaluatorRole (evaluations (snd (fetchData (Some usr) tok (Ok (Json srows))
                                         (Ok (Json erows)) g)) ! i) = ''student''"
      by (simp add: fetchData_ok)
  next
    assume "getSessionById (sessions g') (gd_session_id row) = None
            \<and> evaluator_id row \<noteq> Undefined"
    then show "\<exists>ev. fst (submitEvaluation (Some usr') tok' sessionId studentId' c
                         (Ok (Json row)) rs' re' g') = Inr ev
                \<and> evaluatorRole ev = ''student''"
      by (simp add: submitEvaluation_returns step)
  qed
qed

theorem missing_session_is_student_witness:
  "getSessionById [exampleSession, otherSession] (gd_session_id orphanEvaluationRow) = None
   \<and> evaluator_id orphanEvaluationRow = Value ''t1''
   \<and> evaluatorRole (formatEvaluation [exampleSession, otherSession] orphanEvaluationRow)
       = ''student''
   \<and> evaluatorRole
       (evaluations (snd (fetchData (Some exampleStudent) (Some ''tok'')
          (Ok (Json [exampleSessionRow])) (Ok (Json [exampleEvaluationRow, orphanEvaluationRow]))
          initialGDState)) ! 1)
       = ''student''
   \<and> evaluatorRole
       (projr (fst (submitEvaluation (Some exampleStudent) (Some ''tok'') ''gd9'' ''s1''
          zeroCriteria (Ok (Json orphanEvaluationRow))
          (FetchRejected ''offline'' :: SessionRow list response)
          (FetchRejected ''offline'' :: EvaluationRow list response) initialGDState)))
       = ''student''"
proof -
  have carried: "evaluator_id orphanEvaluationRow = Value ''t1''"
    by (simp add: orphanEvaluationRow_def)
  have none: "getSessionById [exampleSession, otherSession]
                (gd_session_id orphanEvaluationRow) = None
              \<and> evaluator_id orphanEvaluationRow \<noteq> Undefined"
    by (simp add: getSessionById_def orphanEvaluationRow_def exampleSession_def otherSession_def)
  note step =
    missing_session_is_student
      [where ss = "[exampleSession, otherSession]" and e = orphanEvaluationRow,
       THEN conjunct1, rule_format, OF none]
  have pre: "User.id exampleStudent \<noteq> [] \<and> orEmpty (Some ''tok'') \<noteq> []"
    by (simp add: exampleStudent_def orEmpty_def)
  have second: "(1::nat) < length [exampleEvaluationRow, orphanEvaluationRow]"
    by simp
  have unmatched: "getSessionById
          (sessions (snd (fetchData (Some exampleStudent) (Some ''tok'')
             (Ok (Json [exampleSessionRow]))
             (Ok (Json [exampleEvaluationRow, orphanEvaluationRow])) initialGDState)))
          (gd_session_id ([exampleEvaluationRow, orphanEvaluationRow] ! 1)) = None
        \<and> evaluator_id ([exampleEvaluationRow, orphanEvaluationRow] ! 1) \<noteq> Undefined"
    by (simp add: fetchData_def Let_def exampleStudent_def orEmpty_def getSessionById_def
        formatSession_def exampleSessionRow_def orphanEvaluationRow_def)
  note bulk =
    missing_session_is_student
      [where usr = exampleStudent and tok = "Some ''tok''" and srows = "[exampleSessionRow]"
         and erows = "[exampleEvaluationRow, orphanEvaluationRow]" and g = initialGDState,
       THEN conjunct2, THEN conjunct1, rule_format, OF pre, THEN conjunct2, rule_format,
       OF second unmatched]
  have absent: "getSessionById (sessions initialGDState) (gd_session_id orphanEvaluationRow)
                  = None
                \<and> evaluator_id orphanEvaluationRow \<noteq> Undefined"
    by (simp add: getSessionById_def initialGDState_def orphanEvaluationRow_def)
  note submitted =
    missing_session_is_student
      [where g' = initialGDState and row = orphanEvaluationRow and usr' = exampleStudent
         and tok' = "Some ''tok''" and sessionId = "''gd9''" and studentId' = "''s1''"
         and c = zeroCriteria
         and rs' = "FetchRejected ''offline'' :: SessionRow list response"
         and re' = "FetchRejected ''offline'' :: EvaluationRow list response",
       THEN conjunct2, THEN conjunct2, rule_format, OF absent]
  from submitted have sub: "evaluatorRole
       (projr (fst (submitEvaluation (Some exampleStudent) (Some ''tok'') ''gd9'' ''s1''
          zeroCriteria (Ok (Json orphanEvaluationRow))
          (FetchRejected ''offline'' :: SessionRow list response)
          (FetchRejected ''offline'' :: EvaluationRow list response) initialGDState)))
       = ''student''"
    by auto
  from step none carried bulk sub show ?thesis by simp
qed

subsection \<open>The loading flags\<close>

text \<open>
  The flag after a call of the data provider: it is up only when it was up before and
  the call returned at its entry check, which stands before the flag is raised.
\<close>

lemma fetchData_isLoading:
  "GDState.isLoading (snd (fetchData u tok rs re g)) =
     (GDState.isLoading g \<and> (u = None \<or> (\<exists>usr. u = Some usr \<and> User.id usr = [])))"
  by (simp add: fetchData_def Let_def split: option.splits response.splits json.splits)

lemma createSession_isLoading:
  "GDState.isLoading (snd (snd (createSession u tok d r rs re g))) =
     (GDState.isLoading g
      \<and> (u = None \<or> (\<exists>usr. u = Some usr \<and> User.role usr \<noteq> ''instructor'')))"
  by (simp add: createSession_def Let_def
      split: option.splits response.splits json.splits sum.splits)

lemma submitEvaluation_isLoading:
  "GDState.isLoading (snd (snd (submitEvaluation u tok sessionId studentId' c r rs re g))) =
     (GDState.isLoading g \<and> u = None)"
  by (simp add: submitEvaluation_def Let_def
      split: option.splits response.splits json.splits)

lemma login_isLoading: "AuthState.isLoading (snd (snd (login email' password' r a))) = False"
  by (simp add: login_def Let_def split: response.splits json.splits)

lemma register_isLoading: "AuthState.isLoading (snd (snd (register d r a))) = False"
  by (simp add: register_def Let_def split: response.splits json.splits)

lemma updateProfile_isLoading: "AuthState.isLoading (snd (snd (updateProfile d r a))) = False"
  by (simp add: updateProfile_def Let_def split: option.splits response.splits json.splits)

lemma logout_isLoading: "AuthState.isLoading (snd (snd (logout a))) = False"
  by (simp add: logout_def Let_def)

text \<open>
  Claim C9 as the specification states it: after any call of \<^verbatim>\<open>fetchData\<close>,
  \<^verbatim>\<open>createSession\<close> or \<^verbatim>\<open>submitEvaluation\<close> completes, by success or by error,
  the loading flag is down. The code does not do that for a call it refuses at its entry
  check: the check stands before \<^verbatim>\<open>setIsLoading(true)\<close> and outside the
  \<^verbatim>\<open>try ... finally\<close>, so the call completes without touching the flag, and a flag
  that was up stays up.
\<close>

theorem refused_call_keeps_flag_counterexample:
  "GDState.isLoading busyGDState = True
   \<and> fst (createSession (Some exampleStudent) (Some ''tok'') exampleSessionData
          (Ok (Json exampleSessionRow)) (Ok (Json [exampleSessionRow]))
          (Ok (Json [exampleEvaluationRow])) busyGDState)
       = Inl (Error ''Only instructors can create sessions'')
   \<and> GDState.isLoading
        (snd (snd (createSession (Some exampleStudent) (Some ''tok'') exampleSessionData
           (Ok (Json exampleSessionRow)) (Ok (Json [exampleSessionRow]))
           (Ok (Json [exampleEvaluationRow])) busyGDState))) = True
   \<and> GDState.isLoading
        (snd (snd (submitEvaluation None (Some ''tok'') ''gd1'' ''s1'' zeroCriteria
           (Ok (Json exampleEvaluationRow)) (Ok (Json [exampleSessionRow]))
           (Ok (Json [exampleEvaluationRow])) busyGDState))) = True
   \<and> GDState.isLoading
        (snd (fetchData None (Some ''tok'') (Ok (Json [exampleSessionRow]))
           (Ok (Json [exampleEvaluationRow])) busyGDState)) = True"
  by (simp add: createSession_def submitEvaluation_def fetchData_def busyGDState_def
      exampleStudent_def)

text \<open>
  Claim C9, amended. Every method that raises its loading flag lowers it again, whatever
  the outcome. After any call of \<^verbatim>\<open>login\<close>, \<^verbatim>\<open>register\<close>, \<^verbatim>\<open>updateProfile\<close> or
  \<^verbatim>\<open>logout\<close> the flag of the authentication provider is down. After a call of
  \<^verbatim>\<open>fetchData\<close> with a user that has an id, of \<^verbatim>\<open>createSession\<close> by an instructor,
  or of \<^verbatim>\<open>submitEvaluation\<close> by a logged-in user, the flag of the data provider is
  down, whether the call succeeds or fails. A call that is refused at its entry check
  leaves the flag as it was.
\<close>

theorem loading_flag_reset:
  "AuthState.isLoading (snd (snd (login email' password' r1 a))) = False
   \<and> AuthState.isLoading (snd (snd (register d1 r2 a))) = False
   \<and> AuthState.isLoading (snd (snd (updateProfile d2 r3 a))) = False
   \<and> AuthState.isLoading (snd (snd (logout a))) = False
   \<and> (User.id usr \<noteq> [] \<longrightarrow>
        GDState.isLoading (snd (fetchData (Some usr) tok rs re g)) = False)
   \<and> (User.role usr = ''instructor'' \<longrightarrow>
        GDState.isLoading (snd (snd (createSession (Some usr) tok d3 r4 rs re g))) = False)
   \<and> GDState.isLoading
        (snd (snd (submitEvaluation (Some usr) tok sessionId studentId' c r5 rs re g))) = False
   \<and> GDState.isLoading (snd (fetchData None tok rs re g)) = GDState.isLoading g
   \<and> (User.id usr = [] \<longrightarrow>
        GDState.isLoading (snd (fetchData (Some usr) tok rs re g)) = GDState.isLoading g)
   \<and> GDState.isLoading (snd (snd (createSession None tok d3 r4 rs re g)))
       = GDState.isLoading g
   \<and> (User.role usr \<noteq> ''instructor'' \<longrightarrow>
        GDState.isLoading (snd (snd (createSession (Some usr) tok d3 r4 rs re g)))
          = GDState.isLoading g)
   \<and> GDState.isLoading
        (snd (snd (submitEvaluation None tok sessionId studentId' c r5 rs re g)))
       = GDState.isLoading g"
  by (simp add: login_isLoading register_isLoading updateProfile_isLoading logout_isLoading
      fetchData_isLoading createSession_isLoading submitEvaluation_isLoading)

text \<open>
  An instructor whose requests all fail, starting with the flag up: the flag is down
  after each call. A student refused by \<^verbatim>\<open>createSession\<close> and a user without an id
  skipped by \<^verbatim>\<open>fetchData\<close>, starting with the flag down: it stays down.
\<close>

theorem loading_flag_reset_witness:
  "GDState.isLoading busyGDState = True
   \<and> GDState.isLoading
        (snd (fetchData (Some exampleInstructor) (Some ''tok'')
           (FetchRejected ''offline'' :: SessionRow list response)
           (FetchRejected ''offline'' :: EvaluationRow list response) busyGDState)) = False
   \<and> GDState.isLoading
        (snd (snd (createSession (Some exampleInstructor) (Some ''tok'') exampleSessionData
           (NotOk (Json (Some ''Topic is required'')) :: SessionRow response)
           (FetchRejected ''offline'' :: SessionRow list response)
           (FetchRejected ''offline'' :: EvaluationRow list response) busyGDState))) = False
   \<and> GDState.isLoading
        (snd (snd (submitEvaluation (Some exampleInstructor) (Some ''tok'') ''gd1'' ''s1''
           zeroCriteria (FetchRejected ''offline'' :: EvaluationRow response)
           (FetchRejected ''offline'' :: SessionRow list response)
           (FetchRejected ''offline'' :: EvaluationRow list response) busyGDState))) = False
   \<and> GDState.isLoading
        (snd (snd (createSession (Some (exampleStudent\<lparr>User.id := []\<rparr>)) (Some ''tok'')
           exampleSessionData
           (NotOk (Json (Some ''Topic is required'')) :: SessionRow response)
           (FetchRejected ''offline'' :: SessionRow list response)
           (FetchRejected ''offline'' :: EvaluationRow list response) initialGDState))) = False
   \<and> GDState.isLoading
        (snd (fetchData (Some (exampleStudent\<lparr>User.id := []\<rparr>)) (Some ''tok'')
           (FetchRejected ''offline'' :: SessionRow list response)
           (FetchRejected ''offline'' :: EvaluationRow list response) initialGDState)) = False"
proof -
  have busy: "GDState.isLoading busyGDState = True"
    by (simp add: busyGDState_def)
  have idle: "GDState.isLoading initialGDState = False"
    by (simp add: initialGDState_def)
  have ident: "User.id exampleInstructor \<noteq> []"
    by (simp add: exampleInstructor_def)
  have instr: "User.role exampleInstructor = ''instructor''"
    by (simp add: exampleInstructor_def)
  have anonymous: "User.id (exampleStudent\<lparr>User.id := []\<rparr>) = []"
    by simp
  have student: "User.role (exampleStudent\<lparr>User.id := []\<rparr>) \<noteq> ''instructor''"
    by (simp add: exampleStudent_def)
  note passed =
    loading_flag_reset
      [where usr = exampleInstructor and tok = "Some ''tok''" and g = busyGDState
         and rs = "FetchRejected ''offline'' :: SessionRow list response"
         and re = "FetchRejected ''offline'' :: EvaluationRow list response"
         and ?d3.0 = exampleSessionData
         and ?r4.0 = "NotOk (Json (Some ''Topic is required'')) :: SessionRow response"
         and sessionId = "''gd1''" and studentId' = "''s1''" and c = zeroCriteria
         and ?r5.0 = "FetchRejected ''offline'' :: EvaluationRow response",
       THEN conjunct2, THEN conjunct2, THEN conjunct2, THEN conjunct2]
  note refused =
    loading_flag_reset
      [where usr = "exampleStudent\<lparr>User.id := []\<rparr>" and tok = "Some ''tok''"
         and g = initialGDState
         and rs = "FetchRejected ''offline'' :: SessionRow list response"
         and re = "FetchRejected ''offline'' :: EvaluationRow list response"
         and ?d3.0 = exampleSessionData
         and ?r4.0 = "NotOk (Json (Some ''Topic is required'')) :: SessionRow response"
         and sessionId = "''gd1''" and studentId' = "''s1''" and c = zeroCriteria
         and ?r5.0 = "FetchRejected ''offline'' :: EvaluationRow response",
       THEN conjunct2, THEN conjunct2, THEN conjunct2, THEN conjunct2]
  from passed ident instr busy have up:
    "GDState.isLoading
        (snd (fetchData (Some exampleInstructor) (Some ''tok'')
           (FetchRejected ''offline'' :: SessionRow list response)
           (FetchRejected ''offline'' :: EvaluationRow list response) busyGDState)) = False
     \<and> GDState.isLoading
        (snd (snd (createSession (Some exampleInstructor) (Some ''tok'') exampleSessionData
           (NotOk (Json (Some ''Topic is required'')) :: SessionRow response)
           (FetchRejected ''offline'' :: SessionRow list response)
           (FetchRejected ''offline'' :: EvaluationRow list response) busyGDState))) = False
     \<and> GDState.isLoading
        (snd (snd (submitEvaluation (Some exampleInstructor) (Some ''tok'') ''gd1'' ''s1''
           zeroCriteria (FetchRejected ''offline'' :: EvaluationRow response)
           (FetchRejected ''offline'' :: SessionRow list response)
           (FetchRejected ''offline'' :: EvaluationRow list response) busyGDState))) = False"
    by simp
  from refused anonymous student idle have down:
    "GDState.isLoading
        (snd (snd (createSession (Some (exampleStudent\<lparr>User.id := []\<rparr>)) (Some ''tok'')
           exampleSessionData
           (NotOk (Json (Some ''Topic is required'')) :: SessionRow response)
           (FetchRejected ''offline'' :: SessionRow list response)
           (FetchRejected ''offline'' :: EvaluationRow list response) initialGDState))) = False
     \<and> GDState.isLoading
        (snd (fetchData (Some (exampleStudent\<lparr>User.id := []\<rparr>)) (Some ''tok'')
           (FetchRejected ''offline'' :: SessionRow list response)
           (FetchRejected ''offline'' :: EvaluationRow list response) initialGDState)) = False"
    by simp
  from busy up down show ?thesis by simp
qed

end
